theory Spec2Isabelle
  imports Main "HOL-Library.Sublist"
begin

section \<open>Go values used by the job-lifecycle decision functions\<close>

text \<open>
  The functions of \<^verbatim>\<open>flinkcluster_types_util.go\<close> are methods on pointers. A pointer is an
  \<open>option\<close> (\<open>None\<close> is \<^verbatim>\<open>nil\<close>), and reading a field through a nil pointer is the
  run-time panic of Go, a value of the result type here.
\<close>

datatype panic = NilPointerDereference

text \<open>
  A \<^verbatim>\<open>time.Time\<close> is an instant, counted in nanoseconds from the zero instant of Go
  (January 1 of year 1, 00:00:00 UTC); \<^verbatim>\<open>IsZero\<close> holds of that instant only.
\<close>

type_synonym time = int

definition zeroTime :: time where
  "zeroTime = 0"

definition IsZero :: "time \<Rightarrow> bool" where
  "IsZero t = (t = zeroTime)"

definition Second :: int where
  "Second = 1000000000"

text \<open>
  \<^verbatim>\<open>CompletionTime\<close> is a \<^verbatim>\<open>*metav1.Time\<close>, whose \<^verbatim>\<open>IsZero\<close> accepts the nil pointer
  and answers true for it.
\<close>

definition IsZeroPtr :: "time option \<Rightarrow> bool" where
  "IsZeroPtr t = (case t of None \<Rightarrow> True | Some u \<Rightarrow> IsZero u)"

subsection \<open>Strings\<close>

text \<open>
  A Go string is a sequence of bytes, read as UTF-8. \<^verbatim>\<open>strings.TrimSpace\<close> removes the
  leading and trailing runes that \<^verbatim>\<open>unicode.IsSpace\<close> accepts. \<open>whiteSpace\<close> lists the
  UTF-8 encodings of those runes: U+0009 to U+000D, U+0020, U+0085, U+00A0, U+1680,
  U+2000 to U+200A, U+2028, U+2029, U+202F, U+205F and U+3000.
\<close>

definition whiteSpace :: "string list" where
  "whiteSpace =
    [[CHR 0x09], [CHR 0x0A], [CHR 0x0B], [CHR 0x0C], [CHR 0x0D], [CHR 0x20],
     [CHR 0xC2, CHR 0x85], [CHR 0xC2, CHR 0xA0],
     [CHR 0xE1, CHR 0x9A, CHR 0x80],
     [CHR 0xE2, CHR 0x80, CHR 0x80], [CHR 0xE2, CHR 0x80, CHR 0x81],
     [CHR 0xE2, CHR 0x80, CHR 0x82], [CHR 0xE2, CHR 0x80, CHR 0x83],
     [CHR 0xE2, CHR 0x80, CHR 0x84], [CHR 0xE2, CHR 0x80, CHR 0x85],
     [CHR 0xE2, CHR 0x80, CHR 0x86], [CHR 0xE2, CHR 0x80, CHR 0x87],
     [CHR 0xE2, CHR 0x80, CHR 0x88], [CHR 0xE2, CHR 0x80, CHR 0x89],
     [CHR 0xE2, CHR 0x80, CHR 0x8A],
     [CHR 0xE2, CHR 0x80, CHR 0xA8], [CHR 0xE2, CHR 0x80, CHR 0xA9],
     [CHR 0xE2, CHR 0x80, CHR 0xAF],
     [CHR 0xE2, CHR 0x81, CHR 0x9F],
     [CHR 0xE3, CHR 0x80, CHR 0x80]]"

text \<open>The number of bytes of the white-space rune a string starts with, 0 when it starts
  with none.\<close>

definition leadingSpace :: "string list \<Rightarrow> string \<Rightarrow> nat" where
  "leadingSpace table s =
    (case List.find (\<lambda>w. prefix w s) table of None \<Rightarrow> 0 | Some w \<Rightarrow> length w)"

function trimLeading :: "string list \<Rightarrow> string \<Rightarrow> string" where
  "trimLeading table s =
    (if leadingSpace table s = 0 then s
     else trimLeading table (drop (leadingSpace table s) s))"
  by pat_completeness auto
termination
proof (relation "measure (\<lambda>(table, s). length s)")
  show "wf (measure (\<lambda>(table :: string list, s :: string). length s))"
    by simp
next
  fix table :: "string list" and s :: string
  assume n0: "leadingSpace table s \<noteq> 0"
  then obtain w where "prefix w s" and "leadingSpace table s = length w"
    by (auto simp: leadingSpace_def find_Some_iff split: option.splits)
  with n0 have "0 < length s"
    by (cases s) auto
  with n0 show "((table, drop (leadingSpace table s) s), (table, s))
      \<in> measure (\<lambda>(table, s). length s)"
    by simp
qed

definition TrimSpace :: "string \<Rightarrow> string" where
  "TrimSpace s =
    rev (trimLeading (map rev whiteSpace) (rev (trimLeading whiteSpace s)))"

text \<open>
  \<^verbatim>\<open>strings.ToLower\<close> on the bytes of ASCII: \<^verbatim>\<open>A\<close> to \<^verbatim>\<open>Z\<close> become \<^verbatim>\<open>a\<close> to \<^verbatim>\<open>z\<close>.
  Bytes of other runes are left as they are: Go lowers them by the Unicode tables, and
  no rune other than \<^verbatim>\<open>N\<close>, \<^verbatim>\<open>O\<close> and \<^verbatim>\<open>E\<close> lowers to a letter of \<^verbatim>\<open>none\<close>, the only
  string the result is compared with.
\<close>

definition toLowerByte :: "char \<Rightarrow> char" where
  "toLowerByte c =
    (case map_of (zip ''ABCDEFGHIJKLMNOPQRSTUVWXYZ'' ''abcdefghijklmnopqrstuvwxyz'') c of
       None \<Rightarrow> c
     | Some l \<Rightarrow> l)"

definition ToLower :: "string \<Rightarrow> string" where
  "ToLower s = map toLowerByte s"

text \<open>\<^verbatim>\<open>fmt.Sprintf("%s-cluster-config-map", v)\<close>.\<close>

definition SprintfClusterConfigMap :: "string \<Rightarrow> string" where
  "SprintfClusterConfigMap v = v @ ''-cluster-config-map''"

text \<open>
  Indexing a Go map: the value and whether the key is there. The one-value form gives
  the empty string for a key that is not there, and a nil map has no key.
\<close>

type_synonym properties = "(string \<rightharpoonup> string) option"

definition lookup :: "properties \<Rightarrow> string \<Rightarrow> string option" where
  "lookup m k = (case m of None \<Rightarrow> None | Some f \<Rightarrow> f k)"

definition index :: "properties \<Rightarrow> string \<Rightarrow> string" where
  "index m k = (case lookup m k of None \<Rightarrow> '''' | Some v \<Rightarrow> v)"

section \<open>The data model\<close>

text \<open>
  The fields of \<^verbatim>\<open>JobStatus\<close>, \<^verbatim>\<open>JobSpec\<close> and \<^verbatim>\<open>FlinkCluster\<close> that the functions read.
  The type declarations are in \<^verbatim>\<open>flinkcluster_types.go\<close>; the field types follow the uses
  in \<^verbatim>\<open>flinkcluster_types_util.go\<close>: the job state is a string, compared with the state
  constants; the optional fields of the job are pointers. \<^verbatim>\<open>MaxStateAgeToRestoreSeconds\<close> points
  to an integer, which the code converts to \<^verbatim>\<open>int\<close> as it is.
\<close>

record JobStatus =
  State :: string
  SavepointLocation :: string
  SavepointTime :: string
  FinalSavepoint :: bool
  CompletionTime :: "time option"

record JobSpec =
  RestartPolicy :: "string option"
  MaxStateAgeToRestoreSeconds :: "int option"
  TakeSavepointOnUpdate :: "bool option"
  FromSavepoint :: "string option"

record FlinkClusterSpec =
  FlinkProperties :: properties

record FlinkCluster =
  Spec :: FlinkClusterSpec

text \<open>Modelled from the spec: the ten values of the job state (section 3, JobStatus),
  constants of \<^verbatim>\<open>flinkcluster_types.go\<close>, each the string of its name.\<close>

definition JobStatePending :: string where
  "JobStatePending = ''Pending''"

definition JobStateDeploying :: string where
  "JobStateDeploying = ''Deploying''"

definition JobStateRunning :: string where
  "JobStateRunning = ''Running''"

definition JobStateUpdating :: string where
  "JobStateUpdating = ''Updating''"

definition JobStateRestarting :: string where
  "JobStateRestarting = ''Restarting''"

definition JobStateSucceeded :: string where
  "JobStateSucceeded = ''Succeeded''"

definition JobStateCancelled :: string where
  "JobStateCancelled = ''Cancelled''"

definition JobStateFailed :: string where
  "JobStateFailed = ''Failed''"

definition JobStateLost :: string where
  "JobStateLost = ''Lost''"

definition JobStateDeployFailed :: string where
  "JobStateDeployFailed = ''DeployFailed''"

definition JobStates :: "string list" where
  "JobStates =
    [JobStatePending, JobStateDeploying, JobStateRunning, JobStateUpdating,
     JobStateRestarting, JobStateSucceeded, JobStateCancelled, JobStateFailed,
     JobStateLost, JobStateDeployFailed]"

text \<open>Modelled from the spec: the two restart policies (section 3, JobSpec), constants of
  \<^verbatim>\<open>flinkcluster_types.go\<close>, each the string of its name.\<close>

definition JobRestartPolicyNever :: string where
  "JobRestartPolicyNever = ''Never''"

definition JobRestartPolicyFromSavepointOnFailure :: string where
  "JobRestartPolicyFromSavepointOnFailure = ''FromSavepointOnFailure''"

definition haConfigType :: string where
  "haConfigType = ''high-availability''"

definition haConfigStorageDir :: string where
  "haConfigStorageDir = ''high-availability.storageDir''"

definition haConfigClusterId :: string where
  "haConfigClusterId = ''kubernetes.cluster-id''"

section \<open>The job state classifier\<close>

definition IsActive :: "JobStatus option \<Rightarrow> bool" where
  "IsActive j =
    (case j of None \<Rightarrow> False
     | Some js \<Rightarrow> State js = JobStateRunning \<or> State js = JobStateDeploying)"

definition IsPending :: "JobStatus option \<Rightarrow> bool" where
  "IsPending j =
    (case j of None \<Rightarrow> False
     | Some js \<Rightarrow>
         State js = JobStatePending \<or> State js = JobStateUpdating \<or>
         State js = JobStateRestarting)"

definition IsFailed :: "JobStatus option \<Rightarrow> bool" where
  "IsFailed j =
    (case j of None \<Rightarrow> False
     | Some js \<Rightarrow>
         State js = JobStateFailed \<or> State js = JobStateLost \<or>
         State js = JobStateDeployFailed)"

definition IsStopped :: "JobStatus option \<Rightarrow> bool" where
  "IsStopped j =
    (case j of None \<Rightarrow> False
     | Some js \<Rightarrow>
         State js = JobStateSucceeded \<or> State js = JobStateCancelled \<or> IsFailed j)"

section \<open>Savepoint freshness, restart and update readiness\<close>

text \<open>
  \<^verbatim>\<open>util.HasTimeElapsed\<close> is a helper of the package \<^verbatim>\<open>internal/util\<close>. The functions
  below take it as their first argument \<open>hasTimeElapsed\<close>: the time string, the instant to
  compare with and the number of seconds, as the call passes them. It is taken to return
  for every argument.

  \<^verbatim>\<open>IsSavepointUpToDate\<close> reads \<^verbatim>\<open>j.FinalSavepoint\<close> first and \<^verbatim>\<open>spec\<close> only when the
  savepoint is not final and \<^verbatim>\<open>compareTime\<close> is not zero (\<^verbatim>\<open>||\<close> stops at the first true
  operand).
\<close>

definition IsSavepointUpToDate ::
  "(string \<Rightarrow> time \<Rightarrow> int \<Rightarrow> bool) \<Rightarrow> JobStatus option \<Rightarrow> JobSpec option \<Rightarrow> time
    \<Rightarrow> panic + bool" where
  "IsSavepointUpToDate hasTimeElapsed j spec compareTime =
    (case j of None \<Rightarrow> Inl NilPointerDereference
     | Some js \<Rightarrow>
         if FinalSavepoint js then Inr True
         else if IsZero compareTime then Inr False
         else
           (case spec of None \<Rightarrow> Inl NilPointerDereference
            | Some sp \<Rightarrow>
                (case MaxStateAgeToRestoreSeconds sp of None \<Rightarrow> Inr False
                 | Some stateMaxAge \<Rightarrow>
                     if SavepointLocation js = '''' \<or> SavepointTime js = ''''
                     then Inr False
                     else Inr (\<not> hasTimeElapsed (SavepointTime js) compareTime stateMaxAge))))"

definition ShouldRestart ::
  "(string \<Rightarrow> time \<Rightarrow> int \<Rightarrow> bool) \<Rightarrow> JobStatus option \<Rightarrow> JobSpec option
    \<Rightarrow> panic + bool" where
  "ShouldRestart hasTimeElapsed j spec =
    (case j of None \<Rightarrow> Inr False
     | Some js \<Rightarrow>
         if \<not> IsFailed j then Inr False
         else
           (case spec of None \<Rightarrow> Inr False
            | Some sp \<Rightarrow>
                let restartEnabled =
                      (case RestartPolicy sp of None \<Rightarrow> False
                       | Some p \<Rightarrow> p = JobRestartPolicyFromSavepointOnFailure);
                    jobCompletionTime =
                      (case CompletionTime js of None \<Rightarrow> zeroTime | Some t \<Rightarrow> t)
                in if restartEnabled
                   then IsSavepointUpToDate hasTimeElapsed j spec jobCompletionTime
                   else Inr False))"

definition IsTerminated ::
  "(string \<Rightarrow> time \<Rightarrow> int \<Rightarrow> bool) \<Rightarrow> JobStatus option \<Rightarrow> JobSpec option
    \<Rightarrow> panic + bool" where
  "IsTerminated hasTimeElapsed j spec =
    (if IsStopped j
     then (case ShouldRestart hasTimeElapsed j spec of
             Inl e \<Rightarrow> Inl e | Inr b \<Rightarrow> Inr (\<not> b))
     else Inr False)"

definition isBlank :: "string option \<Rightarrow> bool" where
  "isBlank s = (case s of None \<Rightarrow> True | Some v \<Rightarrow> TrimSpace v = '''')"

text \<open>
  \<^verbatim>\<open>UpdateReady\<close> reads \<^verbatim>\<open>spec.TakeSavepointOnUpdate\<close> before the \<^verbatim>\<open>switch\<close>, so a nil
  \<^verbatim>\<open>spec\<close> panics there. In the \<^verbatim>\<open>switch\<close>, \<^verbatim>\<open>case j == nil\<close> falls through to the body
  of the next case, without its condition. The active case returns only from inside
  its \<^verbatim>\<open>if\<close>; otherwise control leaves the \<^verbatim>\<open>switch\<close> and the function returns false.
\<close>

definition UpdateReady ::
  "(string \<Rightarrow> time \<Rightarrow> int \<Rightarrow> bool) \<Rightarrow> JobStatus option \<Rightarrow> JobSpec option \<Rightarrow> time
    \<Rightarrow> panic + bool" where
  "UpdateReady hasTimeElapsed j spec observeTime =
    (case spec of None \<Rightarrow> Inl NilPointerDereference
     | Some sp \<Rightarrow>
         let takeSavepointOnUpdate =
               (case TakeSavepointOnUpdate sp of None \<Rightarrow> True | Some b \<Rightarrow> b)
         in case j of None \<Rightarrow> Inr True
            | Some js \<Rightarrow>
                if \<not> isBlank (FromSavepoint sp) then Inr True
                else if IsActive j then
                  (if takeSavepointOnUpdate
                   then (if FinalSavepoint js then Inr True else Inr False)
                   else (case IsSavepointUpToDate hasTimeElapsed j spec observeTime of
                           Inl e \<Rightarrow> Inl e
                         | Inr b \<Rightarrow> if b then Inr True else Inr False))
                else if State js = JobStateUpdating \<and> \<not> takeSavepointOnUpdate
                then Inr True
                else
                  let jobCompletionTime =
                        (if \<not> IsZeroPtr (CompletionTime js)
                         then (case CompletionTime js of
                                 None \<Rightarrow> zeroTime | Some t \<Rightarrow> t)
                         else zeroTime)
                  in (case IsSavepointUpToDate hasTimeElapsed j spec jobCompletionTime of
                        Inl e \<Rightarrow> Inl e
                      | Inr b \<Rightarrow> if b then Inr True else Inr False))"

text \<open>Modelled from the spec: \<^verbatim>\<open>util.HasTimeElapsed\<close>, of \<^verbatim>\<open>internal/util\<close>, and the
  conversion of a time string to an instant that it uses (the argument \<open>fromString\<close>).
  By section 4.2, rule 3, the savepoint is up to date iff the time elapsed between the
  savepoint time and the compared instant is strictly less than the interval; the
  helper, whose result \<^verbatim>\<open>IsSavepointUpToDate\<close> negates, is the negation of that.\<close>

definition HasTimeElapsed :: "(string \<Rightarrow> time) \<Rightarrow> string \<Rightarrow> time \<Rightarrow> int \<Rightarrow> bool" where
  "HasTimeElapsed fromString timeToCheckStr now intervalSec =
    (\<not> (now - fromString timeToCheckStr < intervalSec * Second))"

section \<open>The high-availability configuration\<close>

definition IsHighAvailabilityEnabled :: "FlinkCluster option \<Rightarrow> panic + bool" where
  "IsHighAvailabilityEnabled fc =
    (case fc of None \<Rightarrow> Inl NilPointerDereference
     | Some c \<Rightarrow>
         (case FlinkProperties (Spec c) of None \<Rightarrow> Inr False
          | Some m \<Rightarrow>
              (case lookup (FlinkProperties (Spec c)) haConfigType of
                 None \<Rightarrow> Inr False
               | Some v \<Rightarrow>
                   if ToLower v = ''none'' then Inr False
                   else
                     (case lookup (FlinkProperties (Spec c)) haConfigClusterId of
                        None \<Rightarrow> Inr False
                      | Some v \<Rightarrow>
                          if TrimSpace v = '''' then Inr False
                          else
                            (case lookup (FlinkProperties (Spec c)) haConfigStorageDir of
                               None \<Rightarrow> Inr False
                             | Some v \<Rightarrow>
                                 if TrimSpace v = '''' then Inr False
                                 else Inr True)))))"

definition GetHAConfigMapName :: "FlinkCluster option \<Rightarrow> panic + string" where
  "GetHAConfigMapName fc =
    (case IsHighAvailabilityEnabled fc of
       Inl e \<Rightarrow> Inl e
     | Inr enabled \<Rightarrow>
         if \<not> enabled then Inr ''''
         else
           (case fc of None \<Rightarrow> Inl NilPointerDereference
            | Some c \<Rightarrow>
                Inr (SprintfClusterConfigMap
                      (index (FlinkProperties (Spec c)) haConfigClusterId))))"

section \<open>Sample inputs\<close>

text \<open>
  Inputs at which the theorems below are evaluated. \<open>sampleFromString\<close> stands for the
  time conversion: it reads \<^verbatim>\<open>t0\<close> as the instant 100 seconds after the zero instant.
\<close>

definition sampleFromString :: "string \<Rightarrow> time" where
  "sampleFromString s = (if s = ''t0'' then 100 * Second else 0)"

definition sampleStatus :: JobStatus where
  "sampleStatus =
    \<lparr>State = ''Failed'', SavepointLocation = ''s3://x'', SavepointTime = ''t0'',
     FinalSavepoint = True, CompletionTime = None\<rparr>"

definition sampleSpec :: JobSpec where
  "sampleSpec =
    \<lparr>RestartPolicy = Some ''FromSavepointOnFailure'', MaxStateAgeToRestoreSeconds = None,
     TakeSavepointOnUpdate = None, FromSavepoint = None\<rparr>"

definition sampleCluster :: "string \<Rightarrow> string \<Rightarrow> string \<Rightarrow> FlinkCluster" where
  "sampleCluster haType clusterId storageDir =
    \<lparr>Spec = \<lparr>FlinkProperties = Some (map_of
      [(''high-availability'', haType), (''kubernetes.cluster-id'', clusterId),
       (''high-availability.storageDir'', storageDir)])\<rparr>\<rparr>"

definition unknownStatus :: JobStatus where
  "unknownStatus = sampleStatus\<lparr>State := ''Unknown''\<rparr>"

section \<open>Shared facts\<close>

lemmas JobState_defs =
  JobStatePending_def JobStateDeploying_def JobStateRunning_def JobStateUpdating_def
  JobStateRestarting_def JobStateSucceeded_def JobStateCancelled_def JobStateFailed_def
  JobStateLost_def JobStateDeployFailed_def

lemmas sample_defs =
  sampleFromString_def sampleStatus_def sampleSpec_def sampleCluster_def

lemmas ha_defs = haConfigType_def haConfigClusterId_def haConfigStorageDir_def

lemmas trim_defs = TrimSpace_def whiteSpace_def leadingSpace_def

text \<open>With a status and a spec, \<^verbatim>\<open>IsSavepointUpToDate\<close> returns, and this is its value.\<close>

lemma IsSavepointUpToDate_Some:
  "IsSavepointUpToDate h (Some js) (Some sp) t =
     Inr (FinalSavepoint js \<or>
          (case MaxStateAgeToRestoreSeconds sp of None \<Rightarrow> False
           | Some maxAge \<Rightarrow>
               \<not> IsZero t \<and> SavepointLocation js \<noteq> '''' \<and> SavepointTime js \<noteq> '''' \<and>
               \<not> h (SavepointTime js) t maxAge))"
  by (simp add: IsSavepointUpToDate_def split: option.splits)

lemma IsSavepointUpToDate_returns:
  "\<exists>b. IsSavepointUpToDate h (Some js) (Some sp) t = Inr b"
  by (simp add: IsSavepointUpToDate_Some)

lemma ShouldRestart_returns: "\<exists>b. ShouldRestart h j spec = Inr b"
proof (cases j)
  case None
  then have "ShouldRestart h j spec = Inr False"
    by (simp add: ShouldRestart_def)
  then show ?thesis ..
next
  case (Some js)
  note j = this
  show ?thesis
  proof (cases spec)
    case None
    with j have "ShouldRestart h j spec = Inr False"
      by (simp add: ShouldRestart_def)
    then show ?thesis ..
  next
    case (Some sp)
    obtain b where "IsSavepointUpToDate h (Some js) (Some sp)
        (case CompletionTime js of None \<Rightarrow> zeroTime | Some t \<Rightarrow> t) = Inr b"
      using IsSavepointUpToDate_returns by blast
    with j Some have "ShouldRestart h j spec =
        Inr (IsFailed j \<and> RestartPolicy sp = Some JobRestartPolicyFromSavepointOnFailure \<and> b)"
      by (auto simp: ShouldRestart_def Let_def split: option.splits)
    then show ?thesis ..
  qed
qed

lemma IsFailed_Some:
  "IsFailed (Some js) \<longleftrightarrow>
     State js = JobStateFailed \<or> State js = JobStateLost \<or> State js = JobStateDeployFailed"
  by (simp add: IsFailed_def)

lemma completion_time_cases:
  "(if \<not> IsZeroPtr c then (case c of None \<Rightarrow> zeroTime | Some t \<Rightarrow> t) else zeroTime) =
     (case c of None \<Rightarrow> zeroTime | Some t \<Rightarrow> t)"
  by (simp add: IsZeroPtr_def IsZero_def split: option.splits)

text \<open>Past the two first cases of the \<^verbatim>\<open>switch\<close>: a status, a spec, no savepoint to start
  from.\<close>

lemma UpdateReady_blank:
  assumes "isBlank (FromSavepoint sp)"
  shows "UpdateReady h (Some js) (Some sp) t =
     Inr (if IsActive (Some js)
          then (if TakeSavepointOnUpdate sp = Some False
                then IsSavepointUpToDate h (Some js) (Some sp) t = Inr True
                else FinalSavepoint js)
          else if State js = JobStateUpdating \<and> TakeSavepointOnUpdate sp = Some False
          then True
          else IsSavepointUpToDate h (Some js) (Some sp)
                 (case CompletionTime js of None \<Rightarrow> zeroTime | Some c \<Rightarrow> c) = Inr True)"
proof -
  obtain b where b: "IsSavepointUpToDate h (Some js) (Some sp) t = Inr b"
    using IsSavepointUpToDate_returns by blast
  obtain d where d: "IsSavepointUpToDate h (Some js) (Some sp)
      (case CompletionTime js of None \<Rightarrow> zeroTime | Some c \<Rightarrow> c) = Inr d"
    using IsSavepointUpToDate_returns by blast
  show ?thesis
  proof (cases "TakeSavepointOnUpdate sp")
    case None
    with assms b d show ?thesis
      by (simp add: UpdateReady_def completion_time_cases)
  next
    case (Some u)
    with assms b d show ?thesis
      by (simp add: UpdateReady_def completion_time_cases)
  qed
qed

lemma toLowerByte_n: "toLowerByte c = CHR ''n'' \<longleftrightarrow> c = CHR ''n'' \<or> c = CHR ''N''"
  unfolding toLowerByte_def by simp

lemma toLowerByte_o: "toLowerByte c = CHR ''o'' \<longleftrightarrow> c = CHR ''o'' \<or> c = CHR ''O''"
  unfolding toLowerByte_def by simp

lemma toLowerByte_e: "toLowerByte c = CHR ''e'' \<longleftrightarrow> c = CHR ''e'' \<or> c = CHR ''E''"
  unfolding toLowerByte_def by simp

lemma map_eq_four:
  "map f v = [w, x, y, z] \<longleftrightarrow>
     (\<exists>a b c d. v = [a, b, c, d] \<and> f a = w \<and> f b = x \<and> f c = y \<and> f d = z)"
  by (auto simp: map_eq_Cons_conv)

text \<open>The comparison of \<^verbatim>\<open>IsHighAvailabilityEnabled\<close> holds of the sixteen spellings of
  \<^verbatim>\<open>none\<close> in upper and lower case, and of no other string.\<close>

lemma ToLower_none:
  "ToLower v = ''none'' \<longleftrightarrow>
     (\<exists>a b c d. v = [a, b, c, d] \<and> (a = CHR ''n'' \<or> a = CHR ''N'') \<and>
        (b = CHR ''o'' \<or> b = CHR ''O'') \<and> (c = CHR ''n'' \<or> c = CHR ''N'') \<and>
        (d = CHR ''e'' \<or> d = CHR ''E''))"
  unfolding ToLower_def map_eq_four toLowerByte_n toLowerByte_o toLowerByte_e ..

section \<open>Properties of the decision functions\<close>

text \<open>
  C1. \<^verbatim>\<open>ShouldRestart\<close> always returns. It is false when the status is absent, when the spec
  is absent, and when the state is none of Failed, Lost and DeployFailed; otherwise it is
  true iff the restart policy is FromSavepointOnFailure and the savepoint is up to date as
  of the completion time, the zero time when that is unset. So it is never true without
  the freshness check holding.
\<close>

theorem ShouldRestart_contract:
  "ShouldRestart h j spec =
     Inr (case j of None \<Rightarrow> False
          | Some js \<Rightarrow>
              (case spec of None \<Rightarrow> False
               | Some sp \<Rightarrow>
                   (State js = JobStateFailed \<or> State js = JobStateLost \<or>
                    State js = JobStateDeployFailed) \<and>
                   RestartPolicy sp = Some JobRestartPolicyFromSavepointOnFailure \<and>
                   IsSavepointUpToDate h j spec
                     (case CompletionTime js of None \<Rightarrow> zeroTime | Some t \<Rightarrow> t) = Inr True))"
proof (cases j)
  case None
  then show ?thesis by (simp add: ShouldRestart_def)
next
  case (Some js)
  note j = this
  show ?thesis
  proof (cases spec)
    case None
    with j show ?thesis by (simp add: ShouldRestart_def)
  next
    case (Some sp)
    obtain b where b: "IsSavepointUpToDate h (Some js) (Some sp)
        (case CompletionTime js of None \<Rightarrow> zeroTime | Some t \<Rightarrow> t) = Inr b"
      using IsSavepointUpToDate_returns by blast
    from j Some b show ?thesis
      by (auto simp: ShouldRestart_def IsFailed_Some Let_def split: option.splits)
  qed
qed

theorem ShouldRestart_contract_witness:
  "ShouldRestart (HasTimeElapsed sampleFromString) (Some sampleStatus) (Some sampleSpec)
     = Inr True \<and>
   ShouldRestart (HasTimeElapsed sampleFromString)
     (Some (sampleStatus\<lparr>FinalSavepoint := False\<rparr>)) (Some sampleSpec) = Inr False \<and>
   ShouldRestart (HasTimeElapsed sampleFromString)
     (Some (sampleStatus\<lparr>State := ''Running''\<rparr>)) (Some sampleSpec) = Inr False"
  by (simp add: ShouldRestart_contract sample_defs JobState_defs
      JobRestartPolicyFromSavepointOnFailure_def IsSavepointUpToDate_Some)

text \<open>
  C2. With the status and the spec both nil, \<^verbatim>\<open>ShouldRestart\<close> returns false, and
  \<^verbatim>\<open>UpdateReady\<close> does not return: it reads \<^verbatim>\<open>spec.TakeSavepointOnUpdate\<close> before the
  \<^verbatim>\<open>switch\<close> whose first case is the nil status, and panics. With the status nil and a
  spec, it returns true.
\<close>

theorem UpdateReady_nil_nil:
  "UpdateReady h None None observeTime = Inl NilPointerDereference \<and>
   UpdateReady h None (Some sp) observeTime = Inr True \<and>
   ShouldRestart h None None = Inr False"
  by (simp add: UpdateReady_def ShouldRestart_def)

text \<open>
  C3. A final savepoint is up to date: for a status with \<^verbatim>\<open>finalSavepoint\<close> true,
  \<^verbatim>\<open>IsSavepointUpToDate\<close> returns true for every spec, the absent one too, and every
  compared time, the zero time too.
\<close>

theorem IsSavepointUpToDate_final:
  "FinalSavepoint js \<Longrightarrow> IsSavepointUpToDate h (Some js) spec compareTime = Inr True"
  by (simp add: IsSavepointUpToDate_def)

theorem IsSavepointUpToDate_final_witness:
  "IsSavepointUpToDate (HasTimeElapsed sampleFromString) (Some sampleStatus) None zeroTime
     = Inr True \<and>
   IsSavepointUpToDate (HasTimeElapsed sampleFromString) (Some sampleStatus)
     (Some sampleSpec) (5 * Second) = Inr True"
proof -
  have final: "FinalSavepoint sampleStatus"
    by (simp add: sampleStatus_def)
  show ?thesis
    using IsSavepointUpToDate_final [OF final] by simp
qed

text \<open>
  C4. For a status whose savepoint is not final, and a spec: \<^verbatim>\<open>IsSavepointUpToDate\<close> is
  false when the compared time is zero, when \<^verbatim>\<open>maxStateAgeToRestoreSeconds\<close> is absent, when
  the savepoint location is empty and when the savepoint time is empty; otherwise it is
  true iff the time from the savepoint time to the compared time is strictly less than
  \<^verbatim>\<open>maxStateAgeToRestoreSeconds\<close> seconds. For a savepoint taken at \<open>T\<close> and a maximal age
  \<open>S\<close>, it is true one second before \<open>T + S\<close> (when that instant is not the zero time) and
  false at \<open>T + S\<close>.
\<close>

theorem IsSavepointUpToDate_not_final:
  assumes "\<not> FinalSavepoint js"
  shows
    "IsSavepointUpToDate (HasTimeElapsed fromString) (Some js) (Some sp) compareTime =
       Inr (case MaxStateAgeToRestoreSeconds sp of None \<Rightarrow> False
            | Some S \<Rightarrow>
                \<not> IsZero compareTime \<and> SavepointLocation js \<noteq> '''' \<and>
                SavepointTime js \<noteq> '''' \<and>
                compareTime - fromString (SavepointTime js) < S * Second) \<and>
     (MaxStateAgeToRestoreSeconds sp = Some S \<and> SavepointLocation js \<noteq> '''' \<and>
      SavepointTime js \<noteq> '''' \<and> fromString (SavepointTime js) = T \<longrightarrow>
        (\<not> IsZero (T + S * Second - Second) \<longrightarrow>
           IsSavepointUpToDate (HasTimeElapsed fromString) (Some js) (Some sp)
             (T + S * Second - Second) = Inr True) \<and>
        IsSavepointUpToDate (HasTimeElapsed fromString) (Some js) (Some sp)
          (T + S * Second) = Inr False)"
  using assms
  by (auto simp: IsSavepointUpToDate_Some HasTimeElapsed_def Second_def split: option.splits)

theorem IsSavepointUpToDate_not_final_witness:
  "IsSavepointUpToDate (HasTimeElapsed sampleFromString)
     (Some (sampleStatus\<lparr>FinalSavepoint := False\<rparr>))
     (Some (sampleSpec\<lparr>MaxStateAgeToRestoreSeconds := Some 60\<rparr>)) (159 * Second) = Inr True \<and>
   IsSavepointUpToDate (HasTimeElapsed sampleFromString)
     (Some (sampleStatus\<lparr>FinalSavepoint := False\<rparr>))
     (Some (sampleSpec\<lparr>MaxStateAgeToRestoreSeconds := Some 60\<rparr>)) (160 * Second) = Inr False \<and>
   IsSavepointUpToDate (HasTimeElapsed sampleFromString)
     (Some (sampleStatus\<lparr>FinalSavepoint := False\<rparr>))
     (Some (sampleSpec\<lparr>MaxStateAgeToRestoreSeconds := Some 60\<rparr>)) zeroTime = Inr False \<and>
   IsSavepointUpToDate (HasTimeElapsed sampleFromString)
     (Some (sampleStatus\<lparr>FinalSavepoint := False\<rparr>)) (Some sampleSpec) (159 * Second)
     = Inr False"
proof -
  have nf: "\<not> FinalSavepoint (sampleStatus\<lparr>FinalSavepoint := False\<rparr>)"
    by simp
  have at: "SavepointLocation (sampleStatus\<lparr>FinalSavepoint := False\<rparr>) \<noteq> ''''"
    "SavepointTime (sampleStatus\<lparr>FinalSavepoint := False\<rparr>) \<noteq> ''''"
    "sampleFromString (SavepointTime (sampleStatus\<lparr>FinalSavepoint := False\<rparr>))
       = 100 * Second"
    "MaxStateAgeToRestoreSeconds (sampleSpec\<lparr>MaxStateAgeToRestoreSeconds := Some 60\<rparr>)
       = Some 60"
    by (simp_all add: sample_defs)
  have instants: "100 * Second + 60 * Second - Second = 159 * Second"
    "100 * Second + 60 * Second = 160 * Second" "\<not> IsZero (159 * Second)"
    by (simp_all add: Second_def IsZero_def zeroTime_def)
  note c4 = IsSavepointUpToDate_not_final [OF nf, where fromString = sampleFromString
      and S = 60 and T = "100 * Second"]
  from c4 [where sp = "sampleSpec\<lparr>MaxStateAgeToRestoreSeconds := Some 60\<rparr>"
      and compareTime = zeroTime, THEN conjunct2] at instants
  have boundary: "IsSavepointUpToDate (HasTimeElapsed sampleFromString)
       (Some (sampleStatus\<lparr>FinalSavepoint := False\<rparr>))
       (Some (sampleSpec\<lparr>MaxStateAgeToRestoreSeconds := Some 60\<rparr>)) (159 * Second)
         = Inr True"
    "IsSavepointUpToDate (HasTimeElapsed sampleFromString)
       (Some (sampleStatus\<lparr>FinalSavepoint := False\<rparr>))
       (Some (sampleSpec\<lparr>MaxStateAgeToRestoreSeconds := Some 60\<rparr>)) (160 * Second)
         = Inr False"
    by simp_all
  have zero: "IsSavepointUpToDate (HasTimeElapsed sampleFromString)
       (Some (sampleStatus\<lparr>FinalSavepoint := False\<rparr>))
       (Some (sampleSpec\<lparr>MaxStateAgeToRestoreSeconds := Some 60\<rparr>)) zeroTime = Inr False"
    unfolding c4 [THEN conjunct1] by (simp add: IsZero_def)
  have absent: "IsSavepointUpToDate (HasTimeElapsed sampleFromString)
       (Some (sampleStatus\<lparr>FinalSavepoint := False\<rparr>)) (Some sampleSpec) (159 * Second)
         = Inr False"
    unfolding c4 [THEN conjunct1] by (simp add: sampleSpec_def)
  from boundary zero absent show ?thesis
    by simp
qed

text \<open>
  C5. For a status that is active (Running or Deploying), with no savepoint named to
  start from: when \<^verbatim>\<open>takeSavepointOnUpdate\<close> is true or absent, \<^verbatim>\<open>UpdateReady\<close> is true iff
  the savepoint is final; when it is false, \<^verbatim>\<open>UpdateReady\<close> is true iff the savepoint is up
  to date as of the observation time.
\<close>

theorem UpdateReady_active:
  assumes "IsActive (Some js)" and "isBlank (FromSavepoint sp)"
  shows "UpdateReady h (Some js) (Some sp) observeTime =
     Inr (if TakeSavepointOnUpdate sp = Some False
          then IsSavepointUpToDate h (Some js) (Some sp) observeTime = Inr True
          else FinalSavepoint js)"
  using assms by (simp add: UpdateReady_blank)

theorem UpdateReady_active_witness:
  "UpdateReady (HasTimeElapsed sampleFromString)
     (Some (sampleStatus\<lparr>State := ''Running'', FinalSavepoint := False\<rparr>)) (Some sampleSpec)
     (5 * Second) = Inr False \<and>
   UpdateReady (HasTimeElapsed sampleFromString)
     (Some (sampleStatus\<lparr>State := ''Running''\<rparr>)) (Some sampleSpec) (5 * Second) = Inr True \<and>
   UpdateReady (HasTimeElapsed sampleFromString)
     (Some (sampleStatus\<lparr>State := ''Running'', FinalSavepoint := False\<rparr>))
     (Some (sampleSpec\<lparr>MaxStateAgeToRestoreSeconds := Some 60,
                       TakeSavepointOnUpdate := Some False\<rparr>))
     (159 * Second) = Inr True"
proof -
  have active: "IsActive (Some (sampleStatus\<lparr>State := ''Running'', FinalSavepoint := b\<rparr>))" for b
    by (simp add: IsActive_def JobState_defs)
  have active': "IsActive (Some (sampleStatus\<lparr>State := ''Running''\<rparr>))"
    by (simp add: IsActive_def JobState_defs)
  have blank: "isBlank (FromSavepoint sampleSpec)"
    "isBlank (FromSavepoint (sampleSpec\<lparr>MaxStateAgeToRestoreSeconds := Some 60,
                       TakeSavepointOnUpdate := Some False\<rparr>))"
    by (simp_all add: isBlank_def sampleSpec_def)
  show ?thesis
    unfolding UpdateReady_active [OF active blank(1)] UpdateReady_active [OF active' blank(1)]
      UpdateReady_active [OF active blank(2)]
    by (simp add: sample_defs IsSavepointUpToDate_Some HasTimeElapsed_def Second_def
        IsZero_def zeroTime_def)
qed

text \<open>
  C6. For a status whose state is Updating, with no savepoint named to start from: when
  \<^verbatim>\<open>takeSavepointOnUpdate\<close> is false, \<^verbatim>\<open>UpdateReady\<close> is true; when it is true or absent,
  \<^verbatim>\<open>UpdateReady\<close> is true iff the savepoint is up to date as of the completion time, the
  zero time when that is unset.
\<close>

theorem UpdateReady_updating:
  assumes "State js = JobStateUpdating" and "isBlank (FromSavepoint sp)"
  shows "UpdateReady h (Some js) (Some sp) observeTime =
     Inr (if TakeSavepointOnUpdate sp = Some False then True
          else IsSavepointUpToDate h (Some js) (Some sp)
                 (case CompletionTime js of None \<Rightarrow> zeroTime | Some c \<Rightarrow> c) = Inr True)"
proof -
  from assms(1) have "\<not> IsActive (Some js)"
    by (simp add: IsActive_def JobState_defs)
  with assms show ?thesis
    by (simp add: UpdateReady_blank)
qed

theorem UpdateReady_updating_witness:
  "UpdateReady (HasTimeElapsed sampleFromString)
     (Some (sampleStatus\<lparr>State := ''Updating'', FinalSavepoint := False\<rparr>))
     (Some (sampleSpec\<lparr>TakeSavepointOnUpdate := Some False\<rparr>)) (5 * Second) = Inr True \<and>
   UpdateReady (HasTimeElapsed sampleFromString)
     (Some (sampleStatus\<lparr>State := ''Updating'', FinalSavepoint := False\<rparr>))
     (Some (sampleSpec\<lparr>MaxStateAgeToRestoreSeconds := Some 60\<rparr>)) (5 * Second) = Inr False \<and>
   UpdateReady (HasTimeElapsed sampleFromString)
     (Some (sampleStatus\<lparr>State := ''Updating'', FinalSavepoint := False,
                         CompletionTime := Some (159 * Second)\<rparr>))
     (Some (sampleSpec\<lparr>MaxStateAgeToRestoreSeconds := Some 60\<rparr>)) (5 * Second) = Inr True"
proof -
  have updating:
    "State (sampleStatus\<lparr>State := ''Updating'', FinalSavepoint := False\<rparr>) = JobStateUpdating"
    "State (sampleStatus\<lparr>State := ''Updating'', FinalSavepoint := False,
                         CompletionTime := Some (159 * Second)\<rparr>) = JobStateUpdating"
    by (simp_all add: JobState_defs)
  have blank: "isBlank (FromSavepoint (sampleSpec\<lparr>TakeSavepointOnUpdate := Some False\<rparr>))"
    "isBlank (FromSavepoint (sampleSpec\<lparr>MaxStateAgeToRestoreSeconds := Some 60\<rparr>))"
    by (simp_all add: isBlank_def sampleSpec_def)
  show ?thesis
    unfolding UpdateReady_updating [OF updating(1) blank(1)]
      UpdateReady_updating [OF updating(1) blank(2)]
      UpdateReady_updating [OF updating(2) blank(2)]
    by (simp add: sample_defs IsSavepointUpToDate_Some HasTimeElapsed_def Second_def
        IsZero_def zeroTime_def)
qed

text \<open>
  C7, amended. \<^verbatim>\<open>IsHighAvailabilityEnabled\<close> is true iff the key \<^verbatim>\<open>high-availability\<close> is there
  with a value that is not \<^verbatim>\<open>none\<close> in any mix of upper and lower case (a blank value
  passes), and the keys \<^verbatim>\<open>kubernetes.cluster-id\<close> and \<^verbatim>\<open>high-availability.storageDir\<close> are
  there with values that are not blank. \<^verbatim>\<open>GetHAConfigMapName\<close> returns the empty string iff
  \<^verbatim>\<open>IsHighAvailabilityEnabled\<close> is false, and otherwise the stored cluster id followed by
  \<^verbatim>\<open>-cluster-config-map\<close>.
\<close>

theorem IsHighAvailabilityEnabled_iff:
  "IsHighAvailabilityEnabled (Some fc) =
     Inr ((case lookup (FlinkProperties (Spec fc)) haConfigType of
             None \<Rightarrow> False | Some v \<Rightarrow> ToLower v \<noteq> ''none'') \<and>
          \<not> isBlank (lookup (FlinkProperties (Spec fc)) haConfigClusterId) \<and>
          \<not> isBlank (lookup (FlinkProperties (Spec fc)) haConfigStorageDir)) \<and>
   (GetHAConfigMapName (Some fc) = Inr '''' \<longleftrightarrow>
      IsHighAvailabilityEnabled (Some fc) = Inr False) \<and>
   (IsHighAvailabilityEnabled (Some fc) = Inr True \<longrightarrow>
      GetHAConfigMapName (Some fc) =
        Inr (index (FlinkProperties (Spec fc)) haConfigClusterId @ ''-cluster-config-map''))"
proof -
  have enabled: "IsHighAvailabilityEnabled (Some fc) =
     Inr ((case lookup (FlinkProperties (Spec fc)) haConfigType of
             None \<Rightarrow> False | Some v \<Rightarrow> ToLower v \<noteq> ''none'') \<and>
          \<not> isBlank (lookup (FlinkProperties (Spec fc)) haConfigClusterId) \<and>
          \<not> isBlank (lookup (FlinkProperties (Spec fc)) haConfigStorageDir))"
    by (simp add: IsHighAvailabilityEnabled_def isBlank_def lookup_def split: option.splits)
  then obtain b where b: "IsHighAvailabilityEnabled (Some fc) = Inr b"
    by blast
  have name: "GetHAConfigMapName (Some fc) =
      Inr (if b then index (FlinkProperties (Spec fc)) haConfigClusterId @ ''-cluster-config-map''
           else '''')"
    by (simp add: GetHAConfigMapName_def b SprintfClusterConfigMap_def)
  from b name have "GetHAConfigMapName (Some fc) = Inr '''' \<longleftrightarrow>
      IsHighAvailabilityEnabled (Some fc) = Inr False"
    by simp
  moreover from b name have "IsHighAvailabilityEnabled (Some fc) = Inr True \<longrightarrow>
      GetHAConfigMapName (Some fc) =
        Inr (index (FlinkProperties (Spec fc)) haConfigClusterId @ ''-cluster-config-map'')"
    by simp
  ultimately show ?thesis
    using enabled by blast
qed

theorem IsHighAvailabilityEnabled_iff_witness:
  "IsHighAvailabilityEnabled (Some (sampleCluster ''zookeeper'' ''c1'' ''s3://ha'')) = Inr True \<and>
   GetHAConfigMapName (Some (sampleCluster ''zookeeper'' ''c1'' ''s3://ha''))
     = Inr ''c1-cluster-config-map'' \<and>
   IsHighAvailabilityEnabled (Some (sampleCluster ''NONE'' ''c1'' ''s3://ha'')) = Inr False \<and>
   GetHAConfigMapName (Some (sampleCluster ''NONE'' ''c1'' ''s3://ha'')) = Inr ''''"
proof -
  have on: "IsHighAvailabilityEnabled (Some (sampleCluster ''zookeeper'' ''c1'' ''s3://ha''))
      = Inr True"
    unfolding IsHighAvailabilityEnabled_iff [THEN conjunct1]
    by (simp add: sampleCluster_def ha_defs lookup_def isBlank_def trim_defs ToLower_def
        toLowerByte_def)
  have off: "IsHighAvailabilityEnabled (Some (sampleCluster ''NONE'' ''c1'' ''s3://ha''))
      = Inr False"
    unfolding IsHighAvailabilityEnabled_iff [THEN conjunct1]
    by (simp add: sampleCluster_def ha_defs lookup_def ToLower_def toLowerByte_def)
  from on have "GetHAConfigMapName (Some (sampleCluster ''zookeeper'' ''c1'' ''s3://ha''))
      = Inr ''c1-cluster-config-map''"
    using IsHighAvailabilityEnabled_iff [of "sampleCluster ''zookeeper'' ''c1'' ''s3://ha''"]
    by (simp add: sampleCluster_def ha_defs lookup_def index_def)
  moreover from off have "GetHAConfigMapName (Some (sampleCluster ''NONE'' ''c1'' ''s3://ha''))
      = Inr ''''"
    using IsHighAvailabilityEnabled_iff [of "sampleCluster ''NONE'' ''c1'' ''s3://ha''"]
    by simp
  ultimately show ?thesis
    using on off by simp
qed

text \<open>
  C7 as stated fails: with a blank value of \<^verbatim>\<open>high-availability\<close>, and the two other keys
  set, \<^verbatim>\<open>IsHighAvailabilityEnabled\<close> is true.
\<close>

theorem IsHighAvailabilityEnabled_blank_type:
  "isBlank (lookup (FlinkProperties (Spec (sampleCluster '' '' ''c1'' ''s3://ha'')))
     haConfigType) \<and>
   IsHighAvailabilityEnabled (Some (sampleCluster '' '' ''c1'' ''s3://ha'')) = Inr True"
  by (simp add: IsHighAvailabilityEnabled_def sampleCluster_def ha_defs lookup_def
      isBlank_def trim_defs ToLower_def toLowerByte_def)

text \<open>
  C8, amended. For a status whose state is none of the ten job states, \<^verbatim>\<open>IsActive\<close>,
  \<^verbatim>\<open>IsPending\<close>, \<^verbatim>\<open>IsFailed\<close> and \<^verbatim>\<open>IsStopped\<close> are false and \<^verbatim>\<open>ShouldRestart\<close> returns
  false, for every spec and the absent one; with a spec, \<^verbatim>\<open>UpdateReady\<close> returns true when a
  savepoint to start from is named, and otherwise true iff the savepoint is up to date as
  of the completion time, the zero time when that is unset.
\<close>

theorem unknown_state:
  assumes "State js \<notin> set JobStates"
  shows "\<not> IsActive (Some js) \<and> \<not> IsPending (Some js) \<and> \<not> IsFailed (Some js) \<and>
     \<not> IsStopped (Some js) \<and>
     ShouldRestart h (Some js) spec = Inr False \<and>
     UpdateReady h (Some js) (Some sp) observeTime =
       Inr (\<not> isBlank (FromSavepoint sp) \<or>
            IsSavepointUpToDate h (Some js) (Some sp)
              (case CompletionTime js of None \<Rightarrow> zeroTime | Some c \<Rightarrow> c) = Inr True)"
proof -
  from assms have classes: "\<not> IsActive (Some js)" "\<not> IsPending (Some js)"
      "\<not> IsFailed (Some js)" "\<not> IsStopped (Some js)"
    by (simp_all add: IsActive_def IsPending_def IsFailed_def IsStopped_def JobStates_def)
  from classes(3) have restart: "ShouldRestart h (Some js) spec = Inr False"
    by (simp add: ShouldRestart_def)
  from assms have updating: "State js \<noteq> JobStateUpdating"
    by (auto simp: JobStates_def)
  have "UpdateReady h (Some js) (Some sp) observeTime =
       Inr (\<not> isBlank (FromSavepoint sp) \<or>
            IsSavepointUpToDate h (Some js) (Some sp)
              (case CompletionTime js of None \<Rightarrow> zeroTime | Some c \<Rightarrow> c) = Inr True)"
  proof (cases "isBlank (FromSavepoint sp)")
    case True
    with classes(1) updating show ?thesis
      by (simp add: UpdateReady_blank)
  next
    case False
    then show ?thesis
      by (simp add: UpdateReady_def Let_def)
  qed
  with classes restart show ?thesis
    by simp
qed

theorem unknown_state_witness:
  "\<not> IsActive (Some unknownStatus) \<and> \<not> IsPending (Some unknownStatus) \<and>
   \<not> IsFailed (Some unknownStatus) \<and> \<not> IsStopped (Some unknownStatus) \<and>
   ShouldRestart (HasTimeElapsed sampleFromString) (Some unknownStatus) (Some sampleSpec)
     = Inr False \<and>
   UpdateReady (HasTimeElapsed sampleFromString)
     (Some (unknownStatus\<lparr>FinalSavepoint := False\<rparr>)) (Some sampleSpec) (5 * Second)
     = Inr False"
proof -
  have unknown: "State (unknownStatus\<lparr>FinalSavepoint := b\<rparr>) \<notin> set JobStates" for b
    by (simp add: unknownStatus_def JobStates_def JobState_defs)
  have same: "unknownStatus\<lparr>FinalSavepoint := True\<rparr> = unknownStatus"
    by (simp add: unknownStatus_def sampleStatus_def)
  have "UpdateReady (HasTimeElapsed sampleFromString)
     (Some (unknownStatus\<lparr>FinalSavepoint := False\<rparr>)) (Some sampleSpec) (5 * Second)
     = Inr False"
    unfolding unknown_state [OF unknown, THEN conjunct2, THEN conjunct2, THEN conjunct2,
        THEN conjunct2, THEN conjunct2]
    by (simp add: unknownStatus_def sample_defs isBlank_def IsSavepointUpToDate_Some
        IsZero_def)
  with unknown_state [OF unknown [of True], of "HasTimeElapsed sampleFromString"
      "Some sampleSpec"] same
  show ?thesis
    by simp
qed

text \<open>
  C8 as stated fails: a status of an unknown state with a final savepoint is ready for
  update.
\<close>

theorem unknown_state_ready:
  "State unknownStatus \<notin> set JobStates \<and>
   UpdateReady (HasTimeElapsed sampleFromString) (Some unknownStatus) (Some sampleSpec)
     zeroTime = Inr True"
  by (simp add: unknownStatus_def sample_defs JobStates_def JobState_defs UpdateReady_def
      isBlank_def IsActive_def IsZeroPtr_def IsSavepointUpToDate_def)

text \<open>
  C9. For a status whose state is one of the ten job states, exactly one of the four
  classes applies: active, pending, failed, and succeeded or cancelled; the stopped
  statuses are those of the last two classes. \<^verbatim>\<open>IsTerminated\<close> always returns, and when it
  is true \<^verbatim>\<open>IsStopped\<close> is true. For the absent status, \<^verbatim>\<open>IsActive\<close>, \<^verbatim>\<open>IsPending\<close>,
  \<^verbatim>\<open>IsFailed\<close> and \<^verbatim>\<open>IsStopped\<close> are false.
\<close>

theorem classification:
  "(State js \<in> set JobStates \<longrightarrow>
      length (filter (\<lambda>b. b)
        [IsActive (Some js), IsPending (Some js), IsFailed (Some js),
         State js = JobStateSucceeded \<or> State js = JobStateCancelled]) = 1) \<and>
   (IsStopped (Some js) \<longleftrightarrow>
      IsFailed (Some js) \<or> State js = JobStateSucceeded \<or> State js = JobStateCancelled) \<and>
   (\<exists>b. IsTerminated h j spec = Inr b) \<and>
   (IsTerminated h j spec = Inr True \<longrightarrow> IsStopped j) \<and>
   \<not> IsActive None \<and> \<not> IsPending None \<and> \<not> IsFailed None \<and> \<not> IsStopped None"
proof -
  have one: "State js \<in> set JobStates \<longrightarrow>
      length (filter (\<lambda>b. b)
        [IsActive (Some js), IsPending (Some js), IsFailed (Some js),
         State js = JobStateSucceeded \<or> State js = JobStateCancelled]) = 1"
    by (auto simp: JobStates_def IsActive_def IsPending_def IsFailed_def JobState_defs)
  have stopped: "IsStopped (Some js) \<longleftrightarrow>
      IsFailed (Some js) \<or> State js = JobStateSucceeded \<or> State js = JobStateCancelled"
    by (auto simp: IsStopped_def)
  obtain r where r: "ShouldRestart h j spec = Inr r"
    using ShouldRestart_returns by blast
  then have val: "IsTerminated h j spec = Inr (IsStopped j \<and> \<not> r)"
    by (simp add: IsTerminated_def)
  have absent: "\<not> IsActive None \<and> \<not> IsPending None \<and> \<not> IsFailed None \<and> \<not> IsStopped None"
    by (simp add: IsActive_def IsPending_def IsFailed_def IsStopped_def)
  from one stopped val absent show ?thesis
    by simp
qed

theorem classification_witness:
  "length (filter (\<lambda>b. b)
     [IsActive (Some sampleStatus), IsPending (Some sampleStatus),
      IsFailed (Some sampleStatus),
      State sampleStatus = JobStateSucceeded \<or> State sampleStatus = JobStateCancelled]) = 1 \<and>
   IsStopped (Some sampleStatus) \<and>
   IsTerminated (HasTimeElapsed sampleFromString) (Some sampleStatus) None = Inr True"
proof -
  have known: "State sampleStatus \<in> set JobStates"
    by (simp add: sampleStatus_def JobStates_def JobState_defs)
  have terminated:
    "IsTerminated (HasTimeElapsed sampleFromString) (Some sampleStatus) None = Inr True"
    by (simp add: IsTerminated_def IsStopped_def IsFailed_def ShouldRestart_def
        sampleStatus_def JobState_defs)
  note c9 =
    classification [of sampleStatus "HasTimeElapsed sampleFromString" "Some sampleStatus" None]
  from c9 known have "length (filter (\<lambda>b. b)
     [IsActive (Some sampleStatus), IsPending (Some sampleStatus),
      IsFailed (Some sampleStatus),
      State sampleStatus = JobStateSucceeded \<or> State sampleStatus = JobStateCancelled]) = 1"
    by blast
  moreover from c9 terminated have "IsStopped (Some sampleStatus)"
    by blast
  ultimately show ?thesis
    using terminated by blast
qed

text \<open>
  C10. \<^verbatim>\<open>GetHAConfigMapName\<close> formats the stored cluster id, which it does not trim: with
  the cluster id \<^verbatim>\<open>c1\<close> between two spaces, the configuration is enabled and the name
  keeps the spaces, so it is not the trimmed cluster id followed by
  \<^verbatim>\<open>-cluster-config-map\<close>.
\<close>

theorem GetHAConfigMapName_untrimmed:
  "IsHighAvailabilityEnabled (Some (sampleCluster ''zookeeper'' '' c1 '' ''s3://ha''))
     = Inr True \<and>
   GetHAConfigMapName (Some (sampleCluster ''zookeeper'' '' c1 '' ''s3://ha''))
     = Inr '' c1 -cluster-config-map'' \<and>
   TrimSpace '' c1 '' = ''c1'' \<and>
   GetHAConfigMapName (Some (sampleCluster ''zookeeper'' '' c1 '' ''s3://ha''))
     \<noteq> Inr (TrimSpace '' c1 '' @ ''-cluster-config-map'')"
proof -
  have trim: "TrimSpace '' c1 '' = ''c1''" "TrimSpace ''s3://ha'' = ''s3://ha''"
    by (simp_all add: trim_defs)
  have enabled:
    "IsHighAvailabilityEnabled (Some (sampleCluster ''zookeeper'' '' c1 '' ''s3://ha''))
      = Inr True"
    by (simp add: IsHighAvailabilityEnabled_def sampleCluster_def ha_defs lookup_def trim
        ToLower_def toLowerByte_def)
  have name: "GetHAConfigMapName (Some (sampleCluster ''zookeeper'' '' c1 '' ''s3://ha''))
      = Inr '' c1 -cluster-config-map''"
    unfolding GetHAConfigMapName_def enabled
    by (simp add: sampleCluster_def ha_defs lookup_def index_def SprintfClusterConfigMap_def)
  from trim enabled name show ?thesis
    by simp
qed

end
